theory Spec2Isabelle
  imports Main "HOL-Library.Sublist"
begin

section \<open>Data model\<close>

text \<open>
  The entry point \<^verbatim>\<open>models/diff_token/hr_cnn/__main__.py\<close> and the trainer factory
  \<^verbatim>\<open>common/train.py\<close> are embedded. Everything they import from elsewhere (the tensor
  library, the dataset loader, the model class, the evaluator factory, the trainer class)
  is a field of the record \<open>ext\<close> below: a collaborator whose result the embedding takes
  as given. Each call to a collaborator is also written to a trace of events, in program
  order, so that what the script did before an exception stays visible.
\<close>

datatype error = ValueError string | LibraryError string

datatype device = Cuda int | Cpu

text \<open>
  The two \<^verbatim>\<open>map_location\<close> callbacks of the script:
  \<^verbatim>\<open>lambda storage, location: storage.cuda(args.gpu)\<close> and
  \<^verbatim>\<open>lambda storage, location: storage\<close>.
\<close>

datatype map_location = StorageCuda int | StorageAsIs

datatype dataset_cls = VulasDiffTokenHierarchical

datatype trainer_cls = DiffStringTrainer

datatype log_level = DEBUG | INFO

record logger =
  logger_level :: log_level
  handler_level :: log_level
  handler_format :: string

text \<open>The attributes of the parsed command line that the script reads.\<close>

record 'f args =
  dataset :: string
  seed :: int
  cuda :: bool
  gpu :: int
  data_dir :: string
  word_vectors_file :: string
  word_vectors_dir :: string
  batch_size :: int
  resume_snapshot :: "string option"
  lr :: 'f
  weight_decay :: 'f
  log_every :: int
  patience :: int
  save_path :: string
  trained_model :: "string option"
  epochs :: int
  matrix_path :: string

text \<open>
  What the script reads of a split: \<^verbatim>\<open>it.dataset.NUM_CLASSES\<close>,
  \<^verbatim>\<open>len(it.dataset.CODE_FIELD.vocab)\<close> and \<^verbatim>\<open>len(it.dataset)\<close>.
\<close>

record split_dataset =
  NUM_CLASSES :: int
  vocab_len :: int
  dataset_len :: int

record data_iter =
  it_dataset :: split_dataset

text \<open>
  \<^verbatim>\<open>config = deepcopy(args)\<close> with three attributes assigned afterwards; the assignment
  \<^verbatim>\<open>config.dataset = train_iter.dataset\<close> replaces the dataset name of the copy, so the
  new value is the field \<open>cfg_dataset\<close> and \<open>dataset (cfg_args c)\<close> is no longer read.
\<close>

record 'f config =
  cfg_args :: "'f args"
  cfg_dataset :: split_dataset
  target_class :: int
  words_num :: int

text \<open>
  An evaluator object. The script probes two attributes with \<^verbatim>\<open>hasattr\<close>; an attribute
  the object does not have is \<open>None\<close> here.
\<close>

record 'm evaluator =
  ev_dataset_cls :: dataset_cls
  ev_model :: 'm
  ev_loader :: data_iter
  ev_batch_size :: int
  ev_device :: int
  is_multilabel :: "bool option"
  ignore_lengths :: "bool option"

datatype ('m, 'f) optimizer = Adam 'm 'f 'f

text \<open>The dictionary \<^verbatim>\<open>trainer_config\<close>, one field for each of its eight keys.\<close>

record ('m, 'f) trainer_config =
  tc_optimizer :: "('m, 'f) optimizer"
  tc_batch_size :: int
  tc_log_interval :: int
  tc_patience :: int
  tc_model_outfile :: string
  tc_logger :: logger
  tc_ignore_lengths :: bool
  tc_is_multilabel :: bool

text \<open>
  A trainer object: the script only asks whether it has the attribute
  \<^verbatim>\<open>snapshot_path\<close> and, if so, reads it.
\<close>

record trainer =
  trainer_class :: trainer_cls
  snapshot_path :: "string option"

text \<open>The positional arguments a trainer constructor receives from the factory.\<close>

record ('m, 'f, 'e) trainer_args =
  ta_model :: 'm
  ta_embedding :: 'e
  ta_train_loader :: data_iter
  ta_trainer_config :: "('m, 'f) trainer_config"
  ta_train_evaluator :: "'m evaluator"
  ta_test_evaluator :: "'m evaluator"
  ta_dev_evaluator :: "'m evaluator option"

text \<open>A value handed to \<^verbatim>\<open>print\<close>.\<close>

datatype 'f pyval = PStr string | PInt int | PStrList "string list" | PFloatList "'f list"

datatype ('m, 'f) event =
    TorchManualSeed int
  | CudnnDeterministic
  | CudaSetDevice int
  | TorchDevice device
  | Print "'f pyval list"
  | NpRandomSeed int
  | RandomSeed int
  | GetLogger
  | Iters dataset_cls string string string int device
  | TorchLoad string "map_location option"
  | NewHRCNN "'f config"
  | ModelCuda 'm
  | NewAdam 'm 'f 'f
  | GetEvaluator dataset_cls 'm data_iter int int
  | NewTrainer trainer_cls
  | Train int
  | GetScores "'m evaluator" string

text \<open>
  The collaborators. A call that can raise returns \<open>Inl\<close> of the error. Where the value
  of a call is fixed by its arguments (a seed call, a device, an optimizer), the field only
  says whether the call raises.
\<close>

record ('m, 'f) ext =
  cuda_is_available :: bool
  torch_manual_seed :: "int \<Rightarrow> error + unit"
  cuda_set_device :: "int \<Rightarrow> error + unit"
  torch_device :: "device \<Rightarrow> error + unit"
  np_random_seed :: "int \<Rightarrow> error + unit"
  random_seed :: "int \<Rightarrow> error + unit"
  new_adam :: "'m \<Rightarrow> 'f \<Rightarrow> 'f \<Rightarrow> error + unit"
  IS_MULTILABEL :: "dataset_cls \<Rightarrow> bool"
  iters :: "dataset_cls \<Rightarrow> string \<Rightarrow> string \<Rightarrow> string \<Rightarrow> int \<Rightarrow> device
            \<Rightarrow> error + (data_iter \<times> data_iter \<times> data_iter)"
  torch_load :: "string \<Rightarrow> map_location option \<Rightarrow> error + 'm"
  HRCNN :: "'f config \<Rightarrow> error + 'm"
  model_cuda :: "'m \<Rightarrow> error + unit"
  get_evaluator :: "dataset_cls \<Rightarrow> 'm \<Rightarrow> unit option \<Rightarrow> data_iter \<Rightarrow> int \<Rightarrow> int
                    \<Rightarrow> error + 'm evaluator"
  new_trainer :: "trainer_cls \<Rightarrow> ('m, 'f, unit option) trainer_args \<Rightarrow> error + trainer"
  train :: "trainer \<Rightarrow> int \<Rightarrow> error + unit"
  get_scores :: "'m evaluator \<Rightarrow> string \<Rightarrow> error + ('f list \<times> string list)"

section \<open>Sequencing with exceptions and a trace\<close>

type_synonym ('a, 'm, 'f) prog = "('m, 'f) event list \<Rightarrow> (error + 'a) \<times> ('m, 'f) event list"

definition ret :: "'a \<Rightarrow> ('a, 'm, 'f) prog" where
  "ret x = (\<lambda>tr. (Inr x, tr))"

definition raise :: "error \<Rightarrow> ('a, 'm, 'f) prog" where
  "raise e = (\<lambda>tr. (Inl e, tr))"

definition emit :: "('m, 'f) event \<Rightarrow> (unit, 'm, 'f) prog" where
  "emit ev = (\<lambda>tr. (Inr (), tr @ [ev]))"

text \<open>A call to a collaborator: the call is recorded, then its result or error is taken.\<close>

definition call :: "('m, 'f) event \<Rightarrow> error + 'a \<Rightarrow> ('a, 'm, 'f) prog" where
  "call ev r = (\<lambda>tr. (r, tr @ [ev]))"

definition bind :: "('a, 'm, 'f) prog \<Rightarrow> ('a \<Rightarrow> ('b, 'm, 'f) prog) \<Rightarrow> ('b, 'm, 'f) prog" where
  "bind p f = (\<lambda>tr. case p tr of (Inl e, tr') \<Rightarrow> (Inl e, tr') | (Inr x, tr') \<Rightarrow> f x tr')"

definition seq :: "(unit, 'm, 'f) prog \<Rightarrow> ('b, 'm, 'f) prog \<Rightarrow> ('b, 'm, 'f) prog" where
  "seq p q = bind p (\<lambda>_. q)"

definition if_then :: "bool \<Rightarrow> (unit, 'm, 'f) prog \<Rightarrow> (unit, 'm, 'f) prog" where
  "if_then b p = (if b then p else ret ())"

section \<open>The trainer factory (common/train.py)\<close>

definition trainer_map :: "string \<rightharpoonup> trainer_cls" where
  "trainer_map = [''VulasDiff'' \<mapsto> DiffStringTrainer]"

definition get_trainer ::
  "('m, 'f) ext \<Rightarrow> string \<Rightarrow> 'm \<Rightarrow> unit option \<Rightarrow> data_iter \<Rightarrow> ('m, 'f) trainer_config
    \<Rightarrow> 'm evaluator \<Rightarrow> 'm evaluator \<Rightarrow> 'm evaluator option \<Rightarrow> (trainer, 'm, 'f) prog" where
  "get_trainer x dataset_name model embedding train_loader trainer_config
      train_evaluator test_evaluator dev_evaluator =
    (case trainer_map dataset_name of
       None \<Rightarrow> raise (ValueError (dataset_name @ '' is not implemented.''))
     | Some cls \<Rightarrow>
         call (NewTrainer cls)
           (new_trainer x cls
              \<lparr>ta_model = model, ta_embedding = embedding, ta_train_loader = train_loader,
               ta_trainer_config = trainer_config, ta_train_evaluator = train_evaluator,
               ta_test_evaluator = test_evaluator, ta_dev_evaluator = dev_evaluator\<rparr>))"

section \<open>The entry point (models/diff_token/hr_cnn/__main__.py)\<close>

text \<open>
  \<^verbatim>\<open>if args.resume_snapshot:\<close> and \<^verbatim>\<open>if not args.trained_model:\<close> test the truth
  value of an optional path: \<^verbatim>\<open>None\<close> and the empty string both count as not supplied.
\<close>

definition supplied :: "string option \<Rightarrow> string option" where
  "supplied p = (case p of None \<Rightarrow> None | Some s \<Rightarrow> if s = [] then None else Some s)"

text \<open>\<^verbatim>\<open>os.path.join\<close> of two components, as \<^verbatim>\<open>posixpath\<close> computes it.\<close>

definition os_path_join :: "string \<Rightarrow> string \<Rightarrow> string" where
  "os_path_join a b =
    (if b \<noteq> [] \<and> hd b = CHR ''/'' then b
     else if a = [] \<or> last a = CHR ''/'' then a @ b
     else a @ ''/'' @ b)"

definition get_logger :: "(logger, 'm, 'f) prog" where
  "get_logger =
    seq (emit GetLogger)
      (ret \<lparr>logger_level = INFO, handler_level = DEBUG,
            handler_format = ''%(levelname)s - %(message)s''\<rparr>)"

text \<open>\<^verbatim>\<open>if hasattr(e, 'is_multilabel'): e.is_multilabel = v\<close>, and the same for the other flag.\<close>

definition set_is_multilabel :: "bool \<Rightarrow> 'm evaluator \<Rightarrow> 'm evaluator" where
  "set_is_multilabel v e = (if is_multilabel e \<noteq> None then e\<lparr>is_multilabel := Some v\<rparr> else e)"

definition set_ignore_lengths :: "'m evaluator \<Rightarrow> 'm evaluator" where
  "set_ignore_lengths e = (if ignore_lengths e \<noteq> None then e\<lparr>ignore_lengths := Some True\<rparr> else e)"

definition evaluate_dataset ::
  "('m, 'f) ext \<Rightarrow> string \<Rightarrow> dataset_cls \<Rightarrow> 'm \<Rightarrow> unit option \<Rightarrow> data_iter \<Rightarrow> int \<Rightarrow> int
    \<Rightarrow> bool \<Rightarrow> string \<Rightarrow> (unit, 'm, 'f) prog" where
  "evaluate_dataset x split_name dataset_cls model embedding loader batch_sz device
      is_ml matrix_pth =
    bind (call (GetEvaluator dataset_cls model loader batch_sz device)
            (get_evaluator x dataset_cls model embedding loader batch_sz device))
      (\<lambda>e. let saved_model_evaluator = set_ignore_lengths (set_is_multilabel is_ml e) in
        bind (call (GetScores saved_model_evaluator matrix_pth)
                (get_scores x saved_model_evaluator matrix_pth))
          (\<lambda>(scores, metric_names).
            seq (emit (Print [PStr ''Evaluation metrics for'', PStr split_name]))
              (seq (emit (Print [PStrList metric_names]))
                (emit (Print [PFloatList scores])))))"

definition dataset_map :: "string \<rightharpoonup> dataset_cls" where
  "dataset_map = [''VulasDiffToken'' \<mapsto> VulasDiffTokenHierarchical]"

text \<open>
  Lines 63 to 78: seeds, device, logger. Each library call is a call that can raise: the
  run may end here, before the dataset check.
\<close>

definition set_seeds_and_device :: "('m, 'f) ext \<Rightarrow> 'f args \<Rightarrow> (device \<times> logger, 'm, 'f) prog" where
  "set_seeds_and_device x a =
    seq (call (TorchManualSeed (seed a)) (torch_manual_seed x (seed a)))
   (seq (emit CudnnDeterministic)
   (bind (if cuda_is_available x \<and> cuda a
          then seq (call (CudaSetDevice (gpu a)) (cuda_set_device x (gpu a)))
              (seq (call (TorchDevice (Cuda (gpu a))) (torch_device x (Cuda (gpu a))))
                 (ret (Cuda (gpu a))))
          else seq (call (TorchDevice Cpu) (torch_device x Cpu)) (ret Cpu))
      (\<lambda>device.
    seq (if_then (cuda_is_available x \<and> \<not> cuda a)
           (emit (Print [PStr ''Warning: Using CPU for training''])))
   (seq (call (NpRandomSeed (seed a)) (np_random_seed x (seed a)))
   (seq (call (RandomSeed (seed a)) (random_seed x (seed a)))
   (bind get_logger (\<lambda>lg. ret (device, lg))))))))"

text \<open>
  Lines 80 to 93: the dataset check and the three iterators. The loader also receives
  \<^verbatim>\<open>unk_init=UnknownWordVecCache.unk\<close>, the cache modelled further down.
\<close>

definition load_data ::
  "('m, 'f) ext \<Rightarrow> 'f args \<Rightarrow> device
    \<Rightarrow> (dataset_cls \<times> data_iter \<times> data_iter \<times> data_iter, 'm, 'f) prog" where
  "load_data x a device =
    (case dataset_map (dataset a) of
       None \<Rightarrow> raise (ValueError ''Unrecognized dataset'')
     | Some dataset_class \<Rightarrow>
         bind (call (Iters dataset_class (data_dir a) (word_vectors_file a)
                       (word_vectors_dir a) (batch_size a) device)
                 (iters x dataset_class (data_dir a) (word_vectors_file a)
                       (word_vectors_dir a) (batch_size a) device))
           (\<lambda>(train_iter, dev_iter, test_iter).
              ret (dataset_class, train_iter, dev_iter, test_iter)))"

text \<open>Lines 95 to 98.\<close>

definition make_config :: "'f args \<Rightarrow> data_iter \<Rightarrow> 'f config" where
  "make_config a train_iter =
    \<lparr>cfg_args = a, cfg_dataset = it_dataset train_iter,
     target_class = NUM_CLASSES (it_dataset train_iter),
     words_num = vocab_len (it_dataset train_iter)\<rparr>"

text \<open>Lines 100 to 104.\<close>

definition print_summary ::
  "'f args \<Rightarrow> data_iter \<Rightarrow> data_iter \<Rightarrow> data_iter \<Rightarrow> (unit, 'm, 'f) prog" where
  "print_summary a train_iter dev_iter test_iter =
    seq (emit (Print [PStr ''Dataset:'', PStr (dataset a)]))
   (seq (emit (Print [PStr ''No. of target classes:'', PInt (NUM_CLASSES (it_dataset train_iter))]))
   (seq (emit (Print [PStr ''No. of train instances'', PInt (dataset_len (it_dataset train_iter))]))
   (seq (emit (Print [PStr ''No. of dev instances'', PInt (dataset_len (it_dataset dev_iter))]))
        (emit (Print [PStr ''No. of test instances'', PInt (dataset_len (it_dataset test_iter))])))))"

text \<open>
  A \<^verbatim>\<open>torch.load\<close> with the \<^verbatim>\<open>map_location\<close> that lines 107 to 110 and 154 to 157
  choose from \<^verbatim>\<open>args.cuda\<close>.
\<close>

definition load_remapped :: "('m, 'f) ext \<Rightarrow> 'f args \<Rightarrow> string \<Rightarrow> ('m, 'm, 'f) prog" where
  "load_remapped x a path =
    (if cuda a
     then call (TorchLoad path (Some (StorageCuda (gpu a))))
            (torch_load x path (Some (StorageCuda (gpu a))))
     else call (TorchLoad path (Some StorageAsIs)) (torch_load x path (Some StorageAsIs)))"

text \<open>Lines 106 to 114.\<close>

definition build_model :: "('m, 'f) ext \<Rightarrow> 'f args \<Rightarrow> 'f config \<Rightarrow> ('m, 'm, 'f) prog" where
  "build_model x a config =
    (case supplied (resume_snapshot a) of
       Some path \<Rightarrow> load_remapped x a path
     | None \<Rightarrow>
         bind (call (NewHRCNN config) (HRCNN x config))
           (\<lambda>model. seq (if_then (cuda a) (call (ModelCuda model) (model_cuda x model)))
                      (ret model)))"

text \<open>
  Lines 116 to 147: the optimizer over the trainable parameters of the model, the three
  evaluators (train, test, dev, in that order), their \<^verbatim>\<open>is_multilabel\<close> flags, the
  trainer configuration, and \<^verbatim>\<open>ignore_lengths\<close> on the dev and test evaluators.
\<close>

definition make_trainer_config ::
  "('m, 'f) ext \<Rightarrow> 'f args \<Rightarrow> dataset_cls \<Rightarrow> ('m, 'f) optimizer \<Rightarrow> logger
    \<Rightarrow> ('m, 'f) trainer_config" where
  "make_trainer_config x a dataset_class optimizer lg =
    \<lparr>tc_optimizer = optimizer, tc_batch_size = batch_size a, tc_log_interval = log_every a,
     tc_patience = patience a, tc_model_outfile = save_path a, tc_logger = lg,
     tc_ignore_lengths = True, tc_is_multilabel = IS_MULTILABEL x dataset_class\<rparr>"

definition build_evaluators ::
  "('m, 'f) ext \<Rightarrow> 'f args \<Rightarrow> dataset_cls \<Rightarrow> 'm \<Rightarrow> logger \<Rightarrow> data_iter \<Rightarrow> data_iter \<Rightarrow> data_iter
    \<Rightarrow> (('m, 'f) trainer_config \<times> 'm evaluator \<times> 'm evaluator \<times> 'm evaluator, 'm, 'f) prog" where
  "build_evaluators x a dataset_class model lg train_iter dev_iter test_iter =
    seq (call (NewAdam model (lr a) (weight_decay a)) (new_adam x model (lr a) (weight_decay a)))
   (bind (call (GetEvaluator dataset_class model train_iter (batch_size a) (gpu a))
            (get_evaluator x dataset_class model None train_iter (batch_size a) (gpu a)))
      (\<lambda>train_evaluator0.
    bind (call (GetEvaluator dataset_class model test_iter (batch_size a) (gpu a))
            (get_evaluator x dataset_class model None test_iter (batch_size a) (gpu a)))
      (\<lambda>test_evaluator0.
    bind (call (GetEvaluator dataset_class model dev_iter (batch_size a) (gpu a))
            (get_evaluator x dataset_class model None dev_iter (batch_size a) (gpu a)))
      (\<lambda>dev_evaluator0.
    let train_evaluator = set_is_multilabel (IS_MULTILABEL x dataset_class) train_evaluator0;
        test_evaluator1 = set_is_multilabel (IS_MULTILABEL x dataset_class) test_evaluator0;
        dev_evaluator1 = set_is_multilabel (IS_MULTILABEL x dataset_class) dev_evaluator0;
        trainer_config =
          make_trainer_config x a dataset_class (Adam model (lr a) (weight_decay a)) lg;
        dev_evaluator = set_ignore_lengths dev_evaluator1;
        test_evaluator = set_ignore_lengths test_evaluator1
    in ret (trainer_config, train_evaluator, test_evaluator, dev_evaluator)))))"

text \<open>
  Lines 151 to 161: train, or load the pretrained model; then, when the trainer has a
  \<^verbatim>\<open>snapshot_path\<close>, load the model from it with a plain \<^verbatim>\<open>torch.load(path)\<close>.
  The result is the object the name \<^verbatim>\<open>model\<close> is bound to at line 163.
\<close>

definition train_or_load :: "('m, 'f) ext \<Rightarrow> 'f args \<Rightarrow> trainer \<Rightarrow> 'm \<Rightarrow> ('m, 'm, 'f) prog" where
  "train_or_load x a tr model =
    (case supplied (trained_model a) of
       None \<Rightarrow> seq (call (Train (epochs a)) (train x tr (epochs a))) (ret model)
     | Some path \<Rightarrow> load_remapped x a path)"

definition reload_snapshot :: "('m, 'f) ext \<Rightarrow> trainer \<Rightarrow> 'm \<Rightarrow> ('m, 'm, 'f) prog" where
  "reload_snapshot x tr model =
    (case snapshot_path tr of
       Some path \<Rightarrow> call (TorchLoad path None) (torch_load x path None)
     | None \<Rightarrow> ret model)"

definition final_model :: "('m, 'f) ext \<Rightarrow> 'f args \<Rightarrow> trainer \<Rightarrow> 'm \<Rightarrow> ('m, 'm, 'f) prog" where
  "final_model x a tr model = bind (train_or_load x a tr model) (reload_snapshot x tr)"

text \<open>Lines 163 to 168: the two final evaluations.\<close>

definition report ::
  "('m, 'f) ext \<Rightarrow> 'f args \<Rightarrow> dataset_cls \<Rightarrow> 'm \<Rightarrow> data_iter \<Rightarrow> data_iter \<Rightarrow> (unit, 'm, 'f) prog" where
  "report x a dataset_class model dev_iter test_iter =
    seq (evaluate_dataset x ''dev'' dataset_class model None dev_iter (batch_size a) (gpu a)
           (IS_MULTILABEL x dataset_class) (os_path_join (matrix_path a) ''dev''))
        (evaluate_dataset x ''test'' dataset_class model None test_iter (batch_size a) (gpu a)
           (IS_MULTILABEL x dataset_class) (os_path_join (matrix_path a) ''test''))"

text \<open>Lines 151 to 168, given the trainer that line 149 returned.\<close>

definition run_and_report ::
  "('m, 'f) ext \<Rightarrow> 'f args \<Rightarrow> dataset_cls \<Rightarrow> trainer \<Rightarrow> 'm \<Rightarrow> data_iter \<Rightarrow> data_iter
    \<Rightarrow> (unit, 'm, 'f) prog" where
  "run_and_report x a dataset_class tr model dev_iter test_iter =
    bind (final_model x a tr model)
      (\<lambda>model'. report x a dataset_class model' dev_iter test_iter)"

text \<open>The whole script, from line 61 on, started on an empty trace.\<close>

definition main_prog :: "('m, 'f) ext \<Rightarrow> 'f args \<Rightarrow> (unit, 'm, 'f) prog" where
  "main_prog x a =
    bind (set_seeds_and_device x a) (\<lambda>(device, lg).
    bind (load_data x a device) (\<lambda>(dataset_class, train_iter, dev_iter, test_iter).
    seq (print_summary a train_iter dev_iter test_iter)
   (bind (build_model x a (make_config a train_iter)) (\<lambda>model.
    bind (build_evaluators x a dataset_class model lg train_iter dev_iter test_iter)
      (\<lambda>(trainer_config, train_evaluator, test_evaluator, dev_evaluator).
    bind (get_trainer x (dataset a) model None train_iter trainer_config
            train_evaluator test_evaluator (Some dev_evaluator)) (\<lambda>tr.
    run_and_report x a dataset_class tr model dev_iter test_iter))))))"

definition main :: "('m, 'f) ext \<Rightarrow> 'f args \<Rightarrow> (error + unit) \<times> ('m, 'f) event list" where
  "main x a = main_prog x a []"

section \<open>The cache of unknown-word vectors (class UnknownWordVecCache)\<close>

text \<open>
  The class attribute \<^verbatim>\<open>cache\<close> is a dictionary from size tuples to tensor objects.
  Objects live in a store and are named by their address, so that returning the same
  object and returning an equal one are different things. The tensor library is a
  parameter: \<open>tensor_size\<close> is \<^verbatim>\<open>tensor.size()\<close>, \<open>new_tensor\<close> is
  \<^verbatim>\<open>torch.Tensor(size)\<close>, and \<open>uniform\<close> is \<^verbatim>\<open>t.uniform_(-0.25, 0.25)\<close>, which
  overwrites the tensor from the state of the generator and advances that state.
\<close>

record ('t, 'g) tensor_lib =
  tensor_size :: "'t \<Rightarrow> nat list"
  new_tensor :: "nat list \<Rightarrow> 't"
  uniform :: "'t \<Rightarrow> 'g \<Rightarrow> 't \<times> 'g"

record ('t, 'g) cache_state =
  cache :: "nat list \<rightharpoonup> nat"
  store :: "'t list"
  rng :: 'g

definition unk :: "('t, 'g) tensor_lib \<Rightarrow> ('t, 'g) cache_state \<Rightarrow> 't \<Rightarrow> nat \<times> ('t, 'g) cache_state" where
  "unk L st tensor =
    (let size_tup = tensor_size L tensor in
     case cache st size_tup of
       Some obj \<Rightarrow> (obj, st)
     | None \<Rightarrow>
         let obj = length (store st);
             st1 = st\<lparr>cache := (cache st)(size_tup \<mapsto> obj),
                      store := store st @ [new_tensor L (tensor_size L tensor)]\<rparr>;
             (v, g) = uniform L (store st1 ! obj) (rng st1)
         in (obj, st1\<lparr>store := (store st1)[obj := v], rng := g\<rparr>))"

text \<open>The state of a fresh process, and the state after a sequence of calls.\<close>

definition empty_cache :: "'g \<Rightarrow> ('t, 'g) cache_state" where
  "empty_cache g = \<lparr>cache = Map.empty, store = [], rng = g\<rparr>"

fun unk_calls :: "('t, 'g) tensor_lib \<Rightarrow> ('t, 'g) cache_state \<Rightarrow> 't list \<Rightarrow> ('t, 'g) cache_state" where
  "unk_calls L st [] = st"
| "unk_calls L st (t # ts) = unk_calls L (snd (unk L st t)) ts"

text \<open>Every cached address names an object of the store, and no two sizes share one.\<close>

definition cache_ok :: "('t, 'g) cache_state \<Rightarrow> bool" where
  "cache_ok st = (ran (cache st) \<subseteq> {..< length (store st)} \<and> inj_on (cache st) (dom (cache st)))"

section \<open>Concrete inputs\<close>

text \<open>
  A command line, three splits and a set of collaborators on which the definitions above
  can be run: models are named by strings, metric values are integers, every collaborator
  succeeds, \<^verbatim>\<open>torch.load\<close> returns a model named after the file, and the trainer
  exposes a \<^verbatim>\<open>snapshot_path\<close>.
\<close>

definition sample_args :: "int args" where
  "sample_args =
    \<lparr>dataset = ''VulasDiffToken'', seed = 3435, cuda = False, gpu = 0, data_dir = ''data'',
     word_vectors_file = ''vec.txt'', word_vectors_dir = ''emb'', batch_size = 32,
     resume_snapshot = None, lr = 1, weight_decay = 0, log_every = 10, patience = 5,
     save_path = ''ckpt'', trained_model = None, epochs = 30, matrix_path = ''out''\<rparr>"

definition sample_iter :: "int \<Rightarrow> data_iter" where
  "sample_iter n = \<lparr>it_dataset = \<lparr>NUM_CLASSES = 2, vocab_len = 100, dataset_len = n\<rparr>\<rparr>"

definition sample_evaluator ::
  "dataset_cls \<Rightarrow> string \<Rightarrow> data_iter \<Rightarrow> int \<Rightarrow> int \<Rightarrow> string evaluator" where
  "sample_evaluator c m it b d =
    \<lparr>ev_dataset_cls = c, ev_model = m, ev_loader = it, ev_batch_size = b, ev_device = d,
     is_multilabel = Some False, ignore_lengths = Some False\<rparr>"

definition sample_trainer :: trainer where
  "sample_trainer = \<lparr>trainer_class = DiffStringTrainer, snapshot_path = Some ''ckpt/best.pt''\<rparr>"

definition sample_ext :: "(string, int) ext" where
  "sample_ext =
    \<lparr>cuda_is_available = True,
     torch_manual_seed = (\<lambda>n. Inr ()),
     cuda_set_device = (\<lambda>n. Inr ()),
     torch_device = (\<lambda>d. Inr ()),
     np_random_seed = (\<lambda>n. if 0 \<le> n \<and> n < 2 ^ 32 then Inr ()
                            else Inl (ValueError ''Seed must be between 0 and 2**32 - 1'')),
     random_seed = (\<lambda>n. Inr ()),
     new_adam = (\<lambda>m l w. Inr ()),
     IS_MULTILABEL = (\<lambda>_. True),
     iters = (\<lambda>c dd wf wd b dv. Inr (sample_iter 80, sample_iter 10, sample_iter 10)),
     torch_load = (\<lambda>p ml. Inr p),
     HRCNN = (\<lambda>c. Inr ''fresh''),
     model_cuda = (\<lambda>m. Inr ()),
     get_evaluator = (\<lambda>c m e it b d. Inr (sample_evaluator c m it b d)),
     new_trainer = (\<lambda>c ta. Inr sample_trainer),
     train = (\<lambda>t n. Inr ()),
     get_scores = (\<lambda>e p. Inr ([90, 80], [''accuracy'', ''f1'']))\<rparr>"

definition sample_trainer_config :: "(string, int) trainer_config" where
  "sample_trainer_config =
    make_trainer_config sample_ext sample_args VulasDiffTokenHierarchical (Adam ''fresh'' 1 0)
      \<lparr>logger_level = INFO, handler_level = DEBUG, handler_format = ''%(levelname)s''\<rparr>"

text \<open>The \<^verbatim>\<open>map_location\<close> that the script derives from \<^verbatim>\<open>args.cuda\<close>.\<close>

definition remap :: "'f args \<Rightarrow> map_location" where
  "remap a = (if cuda a then StorageCuda (gpu a) else StorageAsIs)"


text \<open>
  The events of lines 63 to 78: seeding, the choice of the device with its warning, and the
  logger. No split, model, optimizer, evaluator or trainer is among them.
\<close>

definition setup_event :: "('m, 'f) event \<Rightarrow> bool" where
  "setup_event ev =
    (case ev of
       TorchManualSeed n \<Rightarrow> True | CudnnDeterministic \<Rightarrow> True | CudaSetDevice n \<Rightarrow> True
     | TorchDevice d \<Rightarrow> True | Print vs \<Rightarrow> True | NpRandomSeed n \<Rightarrow> True
     | RandomSeed n \<Rightarrow> True | GetLogger \<Rightarrow> True | _ \<Rightarrow> False)"

text \<open>
  A tensor library to run the cache on: a tensor is a list of integers, its size the
  one-element tuple of its length, and the generator state a counter that fills a tensor
  with its current value.
\<close>

definition sample_lib :: "(int list, nat) tensor_lib" where
  "sample_lib =
    \<lparr>tensor_size = (\<lambda>t. [length t]),
     new_tensor = (\<lambda>s. replicate (prod_list s) 0),
     uniform = (\<lambda>t g. (map (\<lambda>_. int g) t, Suc g))\<rparr>"

section \<open>The factory\<close>

lemmas prog_defs = ret_def raise_def emit_def call_def bind_def seq_def if_then_def

text \<open>
  Claim C1. The claim is that the trainer factory accepts every dataset name that the entry
  point accepts, \<^verbatim>\<open>'VulasDiffToken'\<close> in particular. The code does the opposite: the
  entry point's map has the key \<^verbatim>\<open>'VulasDiffToken'\<close>, the factory's map only
  \<^verbatim>\<open>'VulasDiff'\<close>, so the factory raises for the one name the entry point lets through,
  and no trainer is constructed. On the sample command line, where every collaborator
  succeeds, that error is how the whole run ends.
\<close>

theorem get_trainer_rejects_entry_point_dataset:
  "dataset_map ''VulasDiffToken'' = Some VulasDiffTokenHierarchical \<and>
   get_trainer x ''VulasDiffToken'' model embedding train_loader trainer_config
       train_evaluator test_evaluator dev_evaluator tr
     = (Inl (ValueError ''VulasDiffToken is not implemented.''), tr) \<and>
   fst (main sample_ext sample_args) = Inl (ValueError ''VulasDiffToken is not implemented.'')"
proof -
  have "fst (main sample_ext sample_args)
      = Inl (ValueError ''VulasDiffToken is not implemented.'')"
    by (simp add: main_def main_prog_def set_seeds_and_device_def load_data_def get_logger_def
        print_summary_def build_model_def build_evaluators_def get_trainer_def supplied_def
        prog_defs sample_ext_def sample_args_def dataset_map_def trainer_map_def Let_def)
  then show ?thesis
    by (simp add: dataset_map_def get_trainer_def trainer_map_def raise_def)
qed

text \<open>
  Claim C3. For every dataset name that is not a key of the factory's map,
  \<^verbatim>\<open>get_trainer\<close> raises a \<^verbatim>\<open>ValueError\<close> whose message contains the name, and
  the trace is left as it was: no constructor has been called.
\<close>

theorem get_trainer_unknown:
  assumes "dataset_name \<notin> dom trainer_map"
  shows "\<exists>msg. get_trainer x dataset_name model embedding train_loader trainer_config
              train_evaluator test_evaluator dev_evaluator tr = (Inl (ValueError msg), tr)
           \<and> sublist dataset_name msg"
proof -
  from assms have "trainer_map dataset_name = None" by (simp add: domIff)
  then have "get_trainer x dataset_name model embedding train_loader trainer_config
        train_evaluator test_evaluator dev_evaluator tr
      = (Inl (ValueError (dataset_name @ '' is not implemented.'')), tr)"
    by (simp add: get_trainer_def raise_def)
  moreover have "sublist dataset_name (dataset_name @ '' is not implemented.'')"
    by (simp add: prefix_imp_sublist)
  ultimately show ?thesis by blast
qed

theorem get_trainer_unknown_witness:
  "''Reuters'' \<notin> dom trainer_map \<and>
   (\<exists>msg. get_trainer sample_ext ''Reuters'' ''fresh'' None (sample_iter 80)
             sample_trainer_config
             (sample_evaluator VulasDiffTokenHierarchical ''fresh'' (sample_iter 80) 32 0)
             (sample_evaluator VulasDiffTokenHierarchical ''fresh'' (sample_iter 10) 32 0)
             None [GetLogger]
           = (Inl (ValueError msg), [GetLogger])
         \<and> sublist ''Reuters'' msg)"
proof -
  have h: "''Reuters'' \<notin> dom trainer_map" by (simp add: trainer_map_def)
  show ?thesis
    using h get_trainer_unknown [OF h, of sample_ext "''fresh''" None "sample_iter 80"
        sample_trainer_config
        "sample_evaluator VulasDiffTokenHierarchical ''fresh'' (sample_iter 80) 32 0"
        "sample_evaluator VulasDiffTokenHierarchical ''fresh'' (sample_iter 10) 32 0"
        None "[GetLogger]"]
    by simp
qed

section \<open>The entry point\<close>

lemma load_remapped_eq:
  "load_remapped x a p tr =
    (torch_load x p (Some (remap a)), tr @ [TorchLoad p (Some (remap a))])"
  by (simp add: load_remapped_def remap_def call_def)

lemma evaluate_dataset_ok:
  assumes "get_evaluator x dc m emb it b d = Inr e"
    and "get_scores x (set_ignore_lengths (set_is_multilabel ml e)) mp = Inr (scores, names)"
  shows "evaluate_dataset x split dc m emb it b d ml mp tr =
    (Inr (), tr @ [GetEvaluator dc m it b d,
                   GetScores (set_ignore_lengths (set_is_multilabel ml e)) mp,
                   Print [PStr ''Evaluation metrics for'', PStr split],
                   Print [PStrList names], Print [PFloatList scores]])"
  using assms by (simp add: evaluate_dataset_def prog_defs)

text \<open>
  What a run can contain. A name the entry point accepts is none the factory accepts, so
  after the evaluators are built the run ends in the factory's error: lines 151 to 168 are
  never reached.
\<close>

lemmas main_defs = main_def main_prog_def set_seeds_and_device_def load_data_def
  get_logger_def print_summary_def build_model_def load_remapped_def build_evaluators_def
  get_trainer_def supplied_def dataset_map_def trainer_map_def Let_def

lemma bind_raise: "bind (raise e) f = raise e"
  by (simp add: bind_def raise_def)


lemma main_prog_unrecognized:
  assumes "dataset_map (dataset a) = None"
  shows "main_prog x a =
    bind (set_seeds_and_device x a) (\<lambda>r. raise (ValueError ''Unrecognized dataset''))"
  using assms
  by (simp add: main_prog_def load_data_def bind_raise split_def)


lemma bind_all:
  assumes "list_all P tr"
    and "\<And>t. list_all P t \<Longrightarrow> list_all P (snd (p t))"
    and "\<And>v t. list_all P t \<Longrightarrow> list_all P (snd (f v t))"
  shows "list_all P (snd (bind p f tr))"
proof (cases "p tr")
  case (Pair r t)
  with assms(2) [OF assms(1)] have t: "list_all P t" by simp
  show ?thesis
  proof (cases r)
    case (Inl e)
    with Pair t show ?thesis by (simp add: bind_def)
  next
    case (Inr v)
    with Pair assms(3) [OF t, of v] show ?thesis by (simp add: bind_def)
  qed
qed


lemma raise_all: "list_all P tr \<Longrightarrow> list_all P (snd (raise e tr))"
  by (simp add: raise_def)

lemma seeds_setup:
  "list_all setup_event tr \<Longrightarrow> list_all setup_event (snd (set_seeds_and_device x a tr))"
  by (auto simp: set_seeds_and_device_def get_logger_def prog_defs setup_event_def
      split: sum.splits prod.splits if_splits)







text \<open>
  Claim C5, as the specification has it: when the entry point rejects a dataset name, the
  message of the error identifies the name. It does not: the message is the fixed text
  \<^verbatim>\<open>Unrecognized dataset\<close>, the same for two different names, and the rejected name
  does not occur in it.
\<close>

theorem main_unrecognized_message_counterexample:
  "fst (main sample_ext (sample_args\<lparr>dataset := ''Reuters''\<rparr>))
     = Inl (ValueError ''Unrecognized dataset'')
   \<and> \<not> sublist ''Reuters'' ''Unrecognized dataset''
   \<and> fst (main sample_ext (sample_args\<lparr>dataset := ''AAPD''\<rparr>))
     = fst (main sample_ext (sample_args\<lparr>dataset := ''Reuters''\<rparr>))"
  by (simp add: main_defs prog_defs sample_ext_def sample_args_def sublist_Cons_right)

text \<open>
  Claim C5, amended. For a dataset name that is not a key of the entry point's map, the
  run ends either in an error that a library call of lines 63 to 78 raised, or, once those
  lines have completed, in a \<^verbatim>\<open>ValueError\<close> with the fixed message
  \<^verbatim>\<open>Unrecognized dataset\<close>, raised in the script itself. In both cases all that has
  happened is seeding, the choice of the device with its warning, and the set-up of the
  logger: no split has been loaded and no model, optimizer, evaluator or trainer built.
\<close>

theorem main_unrecognized_dataset:
  assumes "dataset a \<notin> dom dataset_map"
  shows "main x a =
      (case set_seeds_and_device x a [] of
         (Inl e, tr) \<Rightarrow> (Inl e, tr)
       | (Inr r, tr) \<Rightarrow> (Inl (ValueError ''Unrecognized dataset''), tr))
    \<and> list_all setup_event (snd (main x a))"
proof -
  from assms have n: "dataset_map (dataset a) = None" by (simp add: domIff)
  have 1: "main x a =
      (case set_seeds_and_device x a [] of
         (Inl e, tr) \<Rightarrow> (Inl e, tr)
       | (Inr r, tr) \<Rightarrow> (Inl (ValueError ''Unrecognized dataset''), tr))"
    by (simp add: main_def main_prog_unrecognized [OF n] bind_def raise_def)
  have 2: "list_all setup_event (snd (main x a))"
    unfolding main_def main_prog_unrecognized [OF n]
    by (intro bind_all raise_all seeds_setup) simp_all
  from 1 2 show ?thesis by blast
qed

theorem main_unrecognized_dataset_witness:
  "dataset (sample_args\<lparr>dataset := ''Reuters''\<rparr>) \<notin> dom dataset_map \<and>
   main sample_ext (sample_args\<lparr>dataset := ''Reuters''\<rparr>) =
    (Inl (ValueError ''Unrecognized dataset''),
     [TorchManualSeed 3435, CudnnDeterministic, TorchDevice Cpu,
      Print [PStr ''Warning: Using CPU for training''],
      NpRandomSeed 3435, RandomSeed 3435, GetLogger])"
proof -
  have h: "dataset (sample_args\<lparr>dataset := ''Reuters''\<rparr>) \<notin> dom dataset_map"
    by (simp add: dataset_map_def)
  have s: "set_seeds_and_device sample_ext (sample_args\<lparr>dataset := ''Reuters''\<rparr>) [] =
    (Inr (Cpu, \<lparr>logger_level = INFO, handler_level = DEBUG,
                 handler_format = ''%(levelname)s - %(message)s''\<rparr>),
     [TorchManualSeed 3435, CudnnDeterministic, TorchDevice Cpu,
      Print [PStr ''Warning: Using CPU for training''],
      NpRandomSeed 3435, RandomSeed 3435, GetLogger])"
    by (simp add: set_seeds_and_device_def get_logger_def prog_defs sample_ext_def
        sample_args_def)
  from main_unrecognized_dataset [OF h, of sample_ext, THEN conjunct1] s h
  show ?thesis by simp
qed



text \<open>
  Lines 160 and 161, taken by themselves, load the trainer's snapshot with no
  \<^verbatim>\<open>map_location\<close>; no run gets that far.
\<close>

lemma reload_snapshot_plain:
  "snapshot_path t = Some sp \<Longrightarrow>
     reload_snapshot x t m tr = (torch_load x sp None, tr @ [TorchLoad sp None])"
  by (simp add: reload_snapshot_def call_def)

text \<open>
  Claim C8. Each of the two final evaluation calls, for the dev split and then for the test
  split, asks the evaluator for its scores and then prints three lines: the split name,
  the list of metric names, and the list of metric values. The two lists are the two
  components of the one pair that \<^verbatim>\<open>get_scores\<close> returned, unchanged and in its
  order, so that the value at a position belongs to the name at that position.
\<close>

theorem report_prints:
  assumes "get_evaluator x dc m None dev_iter (batch_size a) (gpu a) = Inr ed"
    and "get_scores x (set_ignore_lengths (set_is_multilabel (IS_MULTILABEL x dc) ed))
           (os_path_join (matrix_path a) ''dev'') = Inr (dev_scores, dev_names)"
    and "get_evaluator x dc m None test_iter (batch_size a) (gpu a) = Inr et"
    and "get_scores x (set_ignore_lengths (set_is_multilabel (IS_MULTILABEL x dc) et))
           (os_path_join (matrix_path a) ''test'') = Inr (test_scores, test_names)"
  shows "report x a dc m dev_iter test_iter tr =
    (Inr (), tr @
      [GetEvaluator dc m dev_iter (batch_size a) (gpu a),
       GetScores (set_ignore_lengths (set_is_multilabel (IS_MULTILABEL x dc) ed))
         (os_path_join (matrix_path a) ''dev''),
       Print [PStr ''Evaluation metrics for'', PStr ''dev''],
       Print [PStrList dev_names], Print [PFloatList dev_scores],
       GetEvaluator dc m test_iter (batch_size a) (gpu a),
       GetScores (set_ignore_lengths (set_is_multilabel (IS_MULTILABEL x dc) et))
         (os_path_join (matrix_path a) ''test''),
       Print [PStr ''Evaluation metrics for'', PStr ''test''],
       Print [PStrList test_names], Print [PFloatList test_scores]])"
  unfolding report_def seq_def bind_def
  by (simp add: evaluate_dataset_ok [OF assms(1,2)] evaluate_dataset_ok [OF assms(3,4)])

theorem report_prints_witness:
  "get_evaluator sample_ext VulasDiffTokenHierarchical ''best'' None (sample_iter 10)
      (batch_size sample_args) (gpu sample_args)
     = Inr (sample_evaluator VulasDiffTokenHierarchical ''best'' (sample_iter 10) 32 0) \<and>
   get_scores sample_ext
      (set_ignore_lengths (set_is_multilabel (IS_MULTILABEL sample_ext VulasDiffTokenHierarchical)
         (sample_evaluator VulasDiffTokenHierarchical ''best'' (sample_iter 10) 32 0)))
      (os_path_join (matrix_path sample_args) ''dev'')
     = Inr ([90, 80], [''accuracy'', ''f1'']) \<and>
   report sample_ext sample_args VulasDiffTokenHierarchical ''best'' (sample_iter 10)
      (sample_iter 12) [] =
    (Inr (),
     [GetEvaluator VulasDiffTokenHierarchical ''best'' (sample_iter 10) 32 0,
      GetScores ((sample_evaluator VulasDiffTokenHierarchical ''best'' (sample_iter 10) 32 0)
                   \<lparr>is_multilabel := Some True, ignore_lengths := Some True\<rparr>) ''out/dev'',
      Print [PStr ''Evaluation metrics for'', PStr ''dev''],
      Print [PStrList [''accuracy'', ''f1'']], Print [PFloatList [90, 80]],
      GetEvaluator VulasDiffTokenHierarchical ''best'' (sample_iter 12) 32 0,
      GetScores ((sample_evaluator VulasDiffTokenHierarchical ''best'' (sample_iter 12) 32 0)
                   \<lparr>is_multilabel := Some True, ignore_lengths := Some True\<rparr>) ''out/test'',
      Print [PStr ''Evaluation metrics for'', PStr ''test''],
      Print [PStrList [''accuracy'', ''f1'']], Print [PFloatList [90, 80]]])"
proof -
  have d1: "get_evaluator sample_ext VulasDiffTokenHierarchical ''best'' None (sample_iter 10)
      (batch_size sample_args) (gpu sample_args)
     = Inr (sample_evaluator VulasDiffTokenHierarchical ''best'' (sample_iter 10) 32 0)"
    by (simp add: sample_ext_def sample_args_def)
  have d2: "get_scores sample_ext
      (set_ignore_lengths (set_is_multilabel (IS_MULTILABEL sample_ext VulasDiffTokenHierarchical)
         (sample_evaluator VulasDiffTokenHierarchical ''best'' (sample_iter 10) 32 0)))
      (os_path_join (matrix_path sample_args) ''dev'')
     = Inr ([90, 80], [''accuracy'', ''f1''])"
    by (simp add: sample_ext_def)
  have t1: "get_evaluator sample_ext VulasDiffTokenHierarchical ''best'' None (sample_iter 12)
      (batch_size sample_args) (gpu sample_args)
     = Inr (sample_evaluator VulasDiffTokenHierarchical ''best'' (sample_iter 12) 32 0)"
    by (simp add: sample_ext_def sample_args_def)
  have t2: "get_scores sample_ext
      (set_ignore_lengths (set_is_multilabel (IS_MULTILABEL sample_ext VulasDiffTokenHierarchical)
         (sample_evaluator VulasDiffTokenHierarchical ''best'' (sample_iter 12) 32 0)))
      (os_path_join (matrix_path sample_args) ''test'')
     = Inr ([90, 80], [''accuracy'', ''f1''])"
    by (simp add: sample_ext_def)
  show ?thesis
    using d1 d2 report_prints [OF d1 d2 t1 t2, of "[]"]
    by (simp add: sample_ext_def sample_args_def sample_evaluator_def set_ignore_lengths_def
        set_is_multilabel_def os_path_join_def)
qed

text \<open>
  Claim C9. When a pretrained model path is supplied, lines 151 to 161 do not train: they
  load the model from that path and, if the trainer has a \<^verbatim>\<open>snapshot_path\<close>, load
  again from the snapshot path; the model that reaches the two final evaluations is then
  the one from the snapshot path, and the pretrained one is dropped.
\<close>

theorem pretrained_model_replaced_by_snapshot:
  assumes "supplied (trained_model a) = Some p"
    and "torch_load x p (Some (remap a)) = Inr m1"
  shows "final_model x a t m tr =
      (case snapshot_path t of
         None \<Rightarrow> (Inr m1, tr @ [TorchLoad p (Some (remap a))])
       | Some sp \<Rightarrow>
           (torch_load x sp None, tr @ [TorchLoad p (Some (remap a)), TorchLoad sp None]))
    \<and> run_and_report x a dc t m dev_iter test_iter tr =
      (case final_model x a t m tr of
         (Inl e, tr') \<Rightarrow> (Inl e, tr')
       | (Inr m', tr') \<Rightarrow> report x a dc m' dev_iter test_iter tr')"
  using assms
  by (simp add: final_model_def run_and_report_def train_or_load_def reload_snapshot_def
      load_remapped_eq bind_def call_def ret_def split: option.splits)

theorem pretrained_model_replaced_by_snapshot_witness:
  "supplied (trained_model (sample_args\<lparr>trained_model := Some ''pre.pt''\<rparr>)) = Some ''pre.pt'' \<and>
   torch_load sample_ext ''pre.pt'' (Some (remap (sample_args\<lparr>trained_model := Some ''pre.pt''\<rparr>)))
     = Inr ''pre.pt'' \<and>
   final_model sample_ext (sample_args\<lparr>trained_model := Some ''pre.pt''\<rparr>) sample_trainer
      ''fresh'' []
     = (Inr ''ckpt/best.pt'',
        [TorchLoad ''pre.pt'' (Some StorageAsIs), TorchLoad ''ckpt/best.pt'' None])"
proof -
  have h1: "supplied (trained_model (sample_args\<lparr>trained_model := Some ''pre.pt''\<rparr>))
      = Some ''pre.pt''"
    by (simp add: supplied_def)
  have h2: "torch_load sample_ext ''pre.pt''
      (Some (remap (sample_args\<lparr>trained_model := Some ''pre.pt''\<rparr>))) = Inr ''pre.pt''"
    by (simp add: sample_ext_def)
  show ?thesis
    using h1 h2 pretrained_model_replaced_by_snapshot [OF h1 h2, of sample_trainer "''fresh''" "[]"]
    by (simp add: sample_ext_def sample_args_def sample_trainer_def remap_def)
qed

text \<open>
  Claim C10. Whatever the command line, the trainer configuration has
  \<^verbatim>\<open>ignore_lengths\<close> set to true; the dev and test evaluators that reach the trainer,
  and every evaluator that \<^verbatim>\<open>evaluate_dataset\<close> hands to \<^verbatim>\<open>get_scores\<close>, either
  lack the attribute or have it set to true.
\<close>

theorem ignore_lengths_forced:
  "tc_ignore_lengths (make_trainer_config x a dc opt lg) \<and>
   (build_evaluators x a dc m lg train_iter dev_iter test_iter tr
       = (Inr (tc, train_ev, test_ev, dev_ev), tr')
     \<longrightarrow> tc_ignore_lengths tc \<and> ignore_lengths dev_ev \<in> {None, Some True}
         \<and> ignore_lengths test_ev \<in> {None, Some True}) \<and>
   (\<forall>e p. GetScores e p \<in> set (snd (evaluate_dataset x split dc m' emb it b d ml mp tr0))
     \<longrightarrow> GetScores e p \<in> set tr0 \<or> ignore_lengths e \<in> {None, Some True})"
proof -
  have A: "tc_ignore_lengths (make_trainer_config x a dc opt lg)"
    by (simp add: make_trainer_config_def)
  have B: "tc_ignore_lengths tc \<and> ignore_lengths dev_ev \<in> {None, Some True}
         \<and> ignore_lengths test_ev \<in> {None, Some True}"
    if "build_evaluators x a dc m lg train_iter dev_iter test_iter tr
       = (Inr (tc, train_ev, test_ev, dev_ev), tr')"
    using that
    by (auto simp add: build_evaluators_def prog_defs Let_def make_trainer_config_def
        set_ignore_lengths_def split: sum.splits prod.splits if_splits)
  have C: "GetScores e p \<in> set tr0 \<or> ignore_lengths e \<in> {None, Some True}"
    if "GetScores e p \<in> set (snd (evaluate_dataset x split dc m' emb it b d ml mp tr0))"
    for e p
    using that
    by (auto simp add: evaluate_dataset_def prog_defs Let_def set_ignore_lengths_def
        split: sum.splits prod.splits if_splits)
  from A B C show ?thesis by blast
qed

theorem ignore_lengths_forced_witness:
  "build_evaluators sample_ext sample_args VulasDiffTokenHierarchical ''fresh''
      (tc_logger sample_trainer_config) (sample_iter 80) (sample_iter 10) (sample_iter 12) []
    = (Inr (sample_trainer_config,
            (sample_evaluator VulasDiffTokenHierarchical ''fresh'' (sample_iter 80) 32 0)
              \<lparr>is_multilabel := Some True\<rparr>,
            (sample_evaluator VulasDiffTokenHierarchical ''fresh'' (sample_iter 12) 32 0)
              \<lparr>is_multilabel := Some True, ignore_lengths := Some True\<rparr>,
            (sample_evaluator VulasDiffTokenHierarchical ''fresh'' (sample_iter 10) 32 0)
              \<lparr>is_multilabel := Some True, ignore_lengths := Some True\<rparr>),
       [NewAdam ''fresh'' 1 0,
        GetEvaluator VulasDiffTokenHierarchical ''fresh'' (sample_iter 80) 32 0,
        GetEvaluator VulasDiffTokenHierarchical ''fresh'' (sample_iter 12) 32 0,
        GetEvaluator VulasDiffTokenHierarchical ''fresh'' (sample_iter 10) 32 0]) \<and>
   tc_ignore_lengths sample_trainer_config \<and>
   GetScores ((sample_evaluator VulasDiffTokenHierarchical ''best'' (sample_iter 10) 32 0)
                \<lparr>is_multilabel := Some True, ignore_lengths := Some True\<rparr>) ''out/dev''
     \<in> set (snd (evaluate_dataset sample_ext ''dev'' VulasDiffTokenHierarchical ''best'' None
                   (sample_iter 10) 32 0 True ''out/dev'' []))"
proof -
  have b: "build_evaluators sample_ext sample_args VulasDiffTokenHierarchical ''fresh''
      (tc_logger sample_trainer_config) (sample_iter 80) (sample_iter 10) (sample_iter 12) []
    = (Inr (sample_trainer_config,
            (sample_evaluator VulasDiffTokenHierarchical ''fresh'' (sample_iter 80) 32 0)
              \<lparr>is_multilabel := Some True\<rparr>,
            (sample_evaluator VulasDiffTokenHierarchical ''fresh'' (sample_iter 12) 32 0)
              \<lparr>is_multilabel := Some True, ignore_lengths := Some True\<rparr>,
            (sample_evaluator VulasDiffTokenHierarchical ''fresh'' (sample_iter 10) 32 0)
              \<lparr>is_multilabel := Some True, ignore_lengths := Some True\<rparr>),
       [NewAdam ''fresh'' 1 0,
        GetEvaluator VulasDiffTokenHierarchical ''fresh'' (sample_iter 80) 32 0,
        GetEvaluator VulasDiffTokenHierarchical ''fresh'' (sample_iter 12) 32 0,
        GetEvaluator VulasDiffTokenHierarchical ''fresh'' (sample_iter 10) 32 0])"
    by (simp add: build_evaluators_def prog_defs sample_ext_def sample_args_def
        sample_trainer_config_def make_trainer_config_def sample_evaluator_def
        set_is_multilabel_def set_ignore_lengths_def Let_def del: not_None_eq)
  have e: "GetScores ((sample_evaluator VulasDiffTokenHierarchical ''best'' (sample_iter 10) 32 0)
                \<lparr>is_multilabel := Some True, ignore_lengths := Some True\<rparr>) ''out/dev''
     \<in> set (snd (evaluate_dataset sample_ext ''dev'' VulasDiffTokenHierarchical ''best'' None
                   (sample_iter 10) 32 0 True ''out/dev'' []))"
    by (simp add: evaluate_dataset_def prog_defs sample_ext_def sample_evaluator_def
        set_is_multilabel_def set_ignore_lengths_def Let_def del: not_None_eq)
  show ?thesis
    using b e
      ignore_lengths_forced [of sample_ext sample_args VulasDiffTokenHierarchical
        "Adam ''fresh'' 1 0" "tc_logger sample_trainer_config" "''fresh''" "sample_iter 80"
        "sample_iter 10" "sample_iter 12" "[]" sample_trainer_config]
    by (simp add: sample_trainer_config_def make_trainer_config_def)
qed

section \<open>The cache of unknown-word vectors\<close>

lemma unk_hit: "cache st (tensor_size L t) = Some obj \<Longrightarrow> unk L st t = (obj, st)"
  by (simp add: unk_def)

lemma unk_miss:
  assumes "cache st (tensor_size L t) = None"
  shows "fst (unk L st t) = length (store st)"
    and "cache (snd (unk L st t)) = (cache st)(tensor_size L t \<mapsto> length (store st))"
    and "store (snd (unk L st t)) =
           store st @ [fst (uniform L (new_tensor L (tensor_size L t)) (rng st))]"
  using assms by (simp_all add: unk_def Let_def split: prod.splits)

lemma unk_retains: "cache (snd (unk L st t)) (tensor_size L t) = Some (fst (unk L st t))"
proof (cases "cache st (tensor_size L t)")
  case None
  then show ?thesis by (simp add: unk_miss)
next
  case (Some obj)
  then show ?thesis by (simp add: unk_hit)
qed

lemma cache_ok_empty: "cache_ok (empty_cache g)"
  by (simp add: cache_ok_def empty_cache_def)

lemma cache_ok_unk:
  assumes "cache_ok st"
  shows "cache_ok (snd (unk L st t))"
proof (cases "cache st (tensor_size L t)")
  case (Some obj)
  with assms show ?thesis by (simp add: unk_hit)
next
  case None
  from assms have r: "ran (cache st) \<subseteq> {..< length (store st)}"
    and i: "inj_on (cache st) (dom (cache st))"
    by (simp_all add: cache_ok_def)
  have fresh: "\<And>s. cache st s \<noteq> Some (length (store st))"
  proof
    fix s assume "cache st s = Some (length (store st))"
    then have "length (store st) \<in> ran (cache st)" by (auto simp: ran_def)
    with r show False by auto
  qed
  have "ran ((cache st)(tensor_size L t \<mapsto> length (store st))) \<subseteq> {..< Suc (length (store st))}"
    using r None by (auto simp: ran_def split: if_splits)
  moreover have "inj_on ((cache st)(tensor_size L t \<mapsto> length (store st)))
      (dom ((cache st)(tensor_size L t \<mapsto> length (store st))))"
    using i fresh by (auto simp: inj_on_def dom_def split: if_splits)
  ultimately show ?thesis
    by (simp add: cache_ok_def unk_miss [OF None])
qed

lemma cache_ok_unk_calls: "cache_ok st \<Longrightarrow> cache_ok (unk_calls L st ts)"
  by (induction ts arbitrary: st) (simp_all add: cache_ok_unk)

lemma unk_keeps:
  assumes "cache_ok st" and "cache st s = Some obj"
  shows "cache (snd (unk L st t)) s = Some obj
       \<and> store (snd (unk L st t)) ! obj = store st ! obj"
proof (cases "cache st (tensor_size L t)")
  case (Some obj')
  with assms show ?thesis by (simp add: unk_hit)
next
  case None
  from assms have "obj \<in> ran (cache st)" by (auto simp: ran_def)
  with assms(1) have lt: "obj < length (store st)" by (auto simp: cache_ok_def)
  from None assms(2) have "s \<noteq> tensor_size L t" by auto
  with assms(2) lt show ?thesis
    by (simp add: unk_miss [OF None] nth_append)
qed

lemma unk_calls_keeps:
  "cache_ok st \<Longrightarrow> cache st s = Some obj \<Longrightarrow>
     cache (unk_calls L st ts) s = Some obj \<and> store (unk_calls L st ts) ! obj = store st ! obj"
proof (induction ts arbitrary: st)
  case Nil
  then show ?case by simp
next
  case (Cons t ts)
  from unk_keeps [OF Cons.prems] have
    k: "cache (snd (unk L st t)) s = Some obj" "store (snd (unk L st t)) ! obj = store st ! obj"
    by simp_all
  from Cons.IH [OF cache_ok_unk [OF Cons.prems(1)] k(1)] k(2)
  show ?case by simp
qed

lemma cache_ok_inj:
  "cache_ok st \<Longrightarrow> cache st s = Some obj \<Longrightarrow> cache st s' = Some obj \<Longrightarrow> s = s'"
  by (auto simp: cache_ok_def inj_on_def dom_def)

lemma cache_ok_bound: "cache_ok st \<Longrightarrow> cache st s = Some obj \<Longrightarrow> obj < length (store st)"
  by (auto simp: cache_ok_def ran_def)

text \<open>
  Claim C2. In a process that starts with an empty cache and makes any calls before, the
  call for a tensor of size \<open>s\<close> leaves the returned object in the cache under \<open>s\<close>; if
  \<open>s\<close> was not cached, that object is a new one, filled by the generator. After any
  further calls, a call for a tensor of the same size returns the same object and leaves
  the state alone, and the object still holds the vector it held after the first call.
  A call for a tensor of another size returns another object.
\<close>

theorem unk_memoized:
  assumes "tensor_size L t' = tensor_size L t"
  shows "(let st0 = unk_calls L (empty_cache g) before;
              obj = fst (unk L st0 t);
              st1 = snd (unk L st0 t);
              st2 = unk_calls L st1 between
          in cache st1 (tensor_size L t) = Some obj
           \<and> (cache st0 (tensor_size L t) = None \<longrightarrow>
                obj = length (store st0) \<and>
                store st1 = store st0 @ [fst (uniform L (new_tensor L (tensor_size L t)) (rng st0))])
           \<and> unk L st2 t' = (obj, st2)
           \<and> store st2 ! obj = store st1 ! obj
           \<and> (tensor_size L t'' \<noteq> tensor_size L t \<longrightarrow> fst (unk L st2 t'') \<noteq> obj))"
proof -
  define st0 where "st0 = unk_calls L (empty_cache g) before"
  define obj where "obj = fst (unk L st0 t)"
  define st1 where "st1 = snd (unk L st0 t)"
  define st2 where "st2 = unk_calls L st1 between"
  have ok0: "cache_ok st0"
    unfolding st0_def by (rule cache_ok_unk_calls [OF cache_ok_empty])
  have ok1: "cache_ok st1"
    unfolding st1_def by (rule cache_ok_unk [OF ok0])
  have ok2: "cache_ok st2"
    unfolding st2_def by (rule cache_ok_unk_calls [OF ok1])
  have c1: "cache st1 (tensor_size L t) = Some obj"
    unfolding st1_def obj_def by (rule unk_retains)
  have first: "obj = length (store st0) \<and>
      store st1 = store st0 @ [fst (uniform L (new_tensor L (tensor_size L t)) (rng st0))]"
    if "cache st0 (tensor_size L t) = None"
    unfolding st1_def obj_def using unk_miss [OF that] by simp
  from unk_calls_keeps [OF ok1 c1, of L between]
  have c2: "cache st2 (tensor_size L t) = Some obj"
    and s2: "store st2 ! obj = store st1 ! obj"
    unfolding st2_def by simp_all
  from c2 assms have again: "unk L st2 t' = (obj, st2)"
    by (simp add: unk_hit)
  have other: "fst (unk L st2 t'') \<noteq> obj" if d: "tensor_size L t'' \<noteq> tensor_size L t"
  proof (cases "cache st2 (tensor_size L t'')")
    case None
    from cache_ok_bound [OF ok2 c2] show ?thesis
      by (simp add: unk_miss(1) [OF None])
  next
    case (Some obj')
    with cache_ok_inj [OF ok2 _ c2] d have "obj' \<noteq> obj" by blast
    with Some show ?thesis by (simp add: unk_hit)
  qed
  from c1 first again s2 other show ?thesis
    unfolding Let_def st0_def [symmetric] obj_def [symmetric] st1_def [symmetric]
      st2_def [symmetric]
    by blast
qed

theorem unk_memoized_witness:
  "tensor_size sample_lib [0, 0, 0] = tensor_size sample_lib [5, 6, 7] \<and>
   cache (unk_calls sample_lib (empty_cache 7) [[1, 2], [3]]) (tensor_size sample_lib [5, 6, 7])
     = None \<and>
   fst (unk sample_lib (unk_calls sample_lib (empty_cache 7) [[1, 2], [3]]) [5, 6, 7]) = 2 \<and>
   fst (unk sample_lib
         (unk_calls sample_lib
            (snd (unk sample_lib (unk_calls sample_lib (empty_cache 7) [[1, 2], [3]]) [5, 6, 7]))
            [[4], [1, 1, 1, 1]])
         [0, 0, 0]) = 2 \<and>
   store (unk_calls sample_lib
            (snd (unk sample_lib (unk_calls sample_lib (empty_cache 7) [[1, 2], [3]]) [5, 6, 7]))
            [[4], [1, 1, 1, 1]]) ! 2 = [9, 9, 9] \<and>
   fst (unk sample_lib
         (unk_calls sample_lib
            (snd (unk sample_lib (unk_calls sample_lib (empty_cache 7) [[1, 2], [3]]) [5, 6, 7]))
            [[4], [1, 1, 1, 1]])
         [6, 6, 6, 6, 6]) = 4"
proof -
  have h: "tensor_size sample_lib [0, 0, 0] = tensor_size sample_lib [5, 6, 7]"
    by (simp add: sample_lib_def)
  have n: "cache (unk_calls sample_lib (empty_cache 7) [[1, 2], [3]])
      (tensor_size sample_lib [5, 6, 7]) = None"
    by (simp add: unk_def empty_cache_def sample_lib_def Let_def)
  have a: "fst (unk sample_lib (unk_calls sample_lib (empty_cache 7) [[1, 2], [3]]) [5, 6, 7])
      = 2"
    by (simp add: unk_def empty_cache_def sample_lib_def Let_def)
  have s: "store (snd (unk sample_lib (unk_calls sample_lib (empty_cache 7) [[1, 2], [3]])
      [5, 6, 7])) ! 2 = [9, 9, 9]"
    by (simp add: unk_def empty_cache_def sample_lib_def Let_def)
  have o: "fst (unk sample_lib
         (unk_calls sample_lib
            (snd (unk sample_lib (unk_calls sample_lib (empty_cache 7) [[1, 2], [3]]) [5, 6, 7]))
            [[4], [1, 1, 1, 1]])
         [6, 6, 6, 6, 6]) = 4"
    by (simp add: unk_def empty_cache_def sample_lib_def Let_def)
  from unk_memoized [OF h, of 7 "[[1, 2], [3]]" "[[4], [1, 1, 1, 1]]" "[6, 6, 6, 6, 6]"]
  have m: "unk sample_lib
         (unk_calls sample_lib
            (snd (unk sample_lib (unk_calls sample_lib (empty_cache 7) [[1, 2], [3]]) [5, 6, 7]))
            [[4], [1, 1, 1, 1]])
         [0, 0, 0]
       = (fst (unk sample_lib (unk_calls sample_lib (empty_cache 7) [[1, 2], [3]]) [5, 6, 7]),
          unk_calls sample_lib
            (snd (unk sample_lib (unk_calls sample_lib (empty_cache 7) [[1, 2], [3]]) [5, 6, 7]))
            [[4], [1, 1, 1, 1]])"
    and k: "store (unk_calls sample_lib
            (snd (unk sample_lib (unk_calls sample_lib (empty_cache 7) [[1, 2], [3]]) [5, 6, 7]))
            [[4], [1, 1, 1, 1]])
          ! fst (unk sample_lib (unk_calls sample_lib (empty_cache 7) [[1, 2], [3]]) [5, 6, 7])
        = store (snd (unk sample_lib (unk_calls sample_lib (empty_cache 7) [[1, 2], [3]])
            [5, 6, 7]))
          ! fst (unk sample_lib (unk_calls sample_lib (empty_cache 7) [[1, 2], [3]]) [5, 6, 7])"
    unfolding Let_def by blast+
  from m a have m': "fst (unk sample_lib
         (unk_calls sample_lib
            (snd (unk sample_lib (unk_calls sample_lib (empty_cache 7) [[1, 2], [3]]) [5, 6, 7]))
            [[4], [1, 1, 1, 1]])
         [0, 0, 0]) = 2"
    by (simp only: fst_conv)
  from k s have k': "store (unk_calls sample_lib
            (snd (unk sample_lib (unk_calls sample_lib (empty_cache 7) [[1, 2], [3]]) [5, 6, 7]))
            [[4], [1, 1, 1, 1]]) ! 2 = [9, 9, 9]"
    by (simp only: a)
  from h n a m' k' o show ?thesis by blast
qed

end
